theory Spec2Isabelle
  imports Main "HOL-Library.Word"
begin

unbundle bit_operations_syntax

section \<open>Resource monitor\<close>

text \<open>
  Go's \<open>uint64\<close> is \<open>64 word\<close>. Go's \<open>uintptr\<close> has the width of the platform, so
  it is \<open>'w word\<close> for an arbitrary width \<open>'w\<close>; the record is parametric in the type
  \<open>'p\<close> of its memory counters and the operations fix \<open>'p = 'w word\<close>.
\<close>

type_synonym uint64 = "64 word"

text \<open>
  The error values the monitor and its callers produce:
  \<^item> \<open>TooManySteps\<close> is \<open>errors.New("too many steps")\<close>;
  \<^item> \<open>TooMuchMemory delta\<close> is
    \<open>fmt.Errorf("too much memory, failed to allocate %d extra locs", delta)\<close>;
  \<^item> \<open>StepsInUse\<close> is
    \<open>errors.New("cannot change execution steps of a monitor already in use")\<close>;
  \<^item> \<open>MemCapInUse\<close> is
    \<open>errors.New("cannot change memory cap of a monitor already in use")\<close>;
  \<^item> \<open>OpError msg\<close> is an error returned by an operation of a caller.
  Go's \<open>nil\<close> error is \<open>None\<close>.
\<close>

datatype 'p error =
    TooManySteps
  | TooMuchMemory 'p
  | StepsInUse
  | MemCapInUse
  | OpError string

record 'p Monitor =
  steps :: uint64
  maxSteps :: uint64
  locationsUsed :: 'p
  locationsCap :: 'p
  err :: "'p error option"

text \<open>
  \<open>initMonitor\<close> reads the process-wide flag \<open>DefaultLocationsCap\<close>; its value is
  the first argument here.
\<close>

definition initMonitor :: "uint64 \<Rightarrow> ('w::len) word Monitor \<Rightarrow> 'w word Monitor" where
  "initMonitor DefaultLocationsCap mon =
     (let mon1 =
        (if locationsCap mon = 0
         then (let dflt = (ucast DefaultLocationsCap :: 'w word)
               in if dflt \<noteq> 0 then mon\<lparr>locationsCap := dflt\<rparr>
                  else mon\<lparr>locationsCap := locationsCap mon - 1\<rparr>)
         else mon)
      in if maxSteps mon1 = 0 then mon1\<lparr>maxSteps := maxSteps mon1 - 1\<rparr> else mon1)"

definition CheckUsage :: "'p Monitor \<Rightarrow> 'p error option \<times> 'p Monitor" where
  "CheckUsage mon =
     (case err mon of
        Some e \<Rightarrow> (Some e, mon)
      | None \<Rightarrow>
          if steps mon \<ge> maxSteps mon
          then (Some TooManySteps, mon\<lparr>err := Some TooManySteps\<rparr>)
          else (None, mon))"

definition ExecutionSteps :: "'p Monitor \<Rightarrow> uint64" where
  "ExecutionSteps mon = steps mon"

definition InUse :: "'p Monitor \<Rightarrow> bool" where
  "InUse mon \<longleftrightarrow> steps mon > 0"

definition SetMaxExecutionSteps :: "uint64 \<Rightarrow> 'p Monitor \<Rightarrow> 'p error option \<times> 'p Monitor" where
  "SetMaxExecutionSteps mx mon =
     (if InUse mon then (Some StepsInUse, mon)
      else (None, mon\<lparr>maxSteps := mx\<rparr>))"

definition countStep :: "'p Monitor \<Rightarrow> 'p Monitor" where
  "countStep mon = mon\<lparr>steps := steps mon + 1\<rparr>"

definition LocationsUsed :: "'p Monitor \<Rightarrow> 'p" where
  "LocationsUsed mon = locationsUsed mon"

definition SetLocationsCap :: "'p \<Rightarrow> 'p Monitor \<Rightarrow> 'p error option \<times> 'p Monitor" where
  "SetLocationsCap mx mon =
     (if InUse mon then (Some MemCapInUse, mon)
      else (None, mon\<lparr>locationsCap := mx\<rparr>))"

text \<open>
  \<open>atomic.AddUintptr\<close> adds with wrap-around; the comparison then reads the
  updated counter.
\<close>

definition DeclareSizeIncrease ::
  "('w::len) word \<Rightarrow> 'w word Monitor \<Rightarrow> 'w word error option \<times> 'w word Monitor" where
  "DeclareSizeIncrease delta mon =
     (case err mon of
        Some e \<Rightarrow> (Some e, mon)
      | None \<Rightarrow>
          (let mon1 = mon\<lparr>locationsUsed := locationsUsed mon + delta\<rparr>
           in if locationsUsed mon1 \<ge> locationsCap mon1
              then (Some (TooMuchMemory delta), mon1\<lparr>err := Some (TooMuchMemory delta)\<rparr>)
              else (None, mon1)))"

text \<open>\<open>-delta\<close> on a \<open>uintptr\<close> is the two's complement negation.\<close>

definition DeclareSizeDecrease :: "('w::len) word \<Rightarrow> 'w word Monitor \<Rightarrow> 'w word Monitor" where
  "DeclareSizeDecrease delta mon =
     (case err mon of
        Some e \<Rightarrow> mon
      | None \<Rightarrow> mon\<lparr>locationsUsed := locationsUsed mon + (- delta)\<rparr>)"

subsection \<open>Sequences of calls on one monitor\<close>

datatype 'p call =
    CallCheckUsage
  | CallCountStep
  | CallDeclareSizeIncrease 'p
  | CallDeclareSizeDecrease 'p
  | CallSetMaxExecutionSteps uint64
  | CallSetLocationsCap 'p

fun applyCall :: "('w::len) word call \<Rightarrow> 'w word Monitor \<Rightarrow> 'w word error option \<times> 'w word Monitor" where
  "applyCall CallCheckUsage mon = CheckUsage mon"
| "applyCall CallCountStep mon = (None, countStep mon)"
| "applyCall (CallDeclareSizeIncrease delta) mon = DeclareSizeIncrease delta mon"
| "applyCall (CallDeclareSizeDecrease delta) mon = (None, DeclareSizeDecrease delta mon)"
| "applyCall (CallSetMaxExecutionSteps mx) mon = SetMaxExecutionSteps mx mon"
| "applyCall (CallSetLocationsCap mx) mon = SetLocationsCap mx mon"

text \<open>\<open>applyCalls cs mon\<close> makes the calls \<open>cs\<close> in order and returns what each returned
  and the monitor at the end.\<close>

fun applyCalls ::
  "('w::len) word call list \<Rightarrow> 'w word Monitor \<Rightarrow> 'w word error option list \<times> 'w word Monitor" where
  "applyCalls [] mon = ([], mon)"
| "applyCalls (c # cs) mon =
     (case applyCall c mon of (r, mon1) \<Rightarrow>
        (case applyCalls cs mon1 of (rs, mon2) \<Rightarrow> (r # rs, mon2)))"

fun returnsLatch :: "'p call \<Rightarrow> bool" where
  "returnsLatch CallCheckUsage = True"
| "returnsLatch (CallDeclareSizeIncrease delta) = True"
| "returnsLatch c = False"

section \<open>Safety flags\<close>

text \<open>
  The declaration of the type \<open>Safety\<close>, of its four flags, of \<open>safetyFlagsLimit\<close>
  and of the method \<open>Contains\<close> is in a file of package \<open>starlark\<close> that is not
  among the sources. The sources have the constants \<open>Safe\<close> (\<open>export_test.go\<close>) and
  \<open>stSafe\<close> (\<open>startest.go\<close>) and the union written \<open>|\<close> or \<open>|=\<close>
  (\<open>RequireSafety\<close>, \<open>stSafe\<close>).
\<close>

text \<open>Modelled from the spec: the type \<open>Safety\<close>, "an immutable bit-set over four
  named flags".\<close>

type_synonym Safety = "8 word"

text \<open>Modelled from the spec: the flag \<open>CPUSafe\<close> (CPU-bounded), the first of the four
  named flags, as the first bit of the set.\<close>

definition CPUSafe :: Safety where
  "CPUSafe = push_bit 0 1"

text \<open>Modelled from the spec: the flag \<open>MemSafe\<close> (Memory-bounded), the second bit.\<close>

definition MemSafe :: Safety where
  "MemSafe = push_bit 1 1"

text \<open>Modelled from the spec: the flag \<open>TimeSafe\<close> (Time-bounded), the third bit.\<close>

definition TimeSafe :: Safety where
  "TimeSafe = push_bit 2 1"

text \<open>Modelled from the spec: the flag \<open>IOSafe\<close> (I/O-free), the fourth bit.\<close>

definition IOSafe :: Safety where
  "IOSafe = push_bit 3 1"

text \<open>Modelled from the spec: the constant \<open>safetyFlagsLimit\<close>, the bit after the last
  of the four flags.\<close>

definition safetyFlagsLimit :: Safety where
  "safetyFlagsLimit = push_bit 4 1"

text \<open>Modelled from the spec: the method \<open>Contains\<close>; "\<open>contains(a, b)\<close> returns true
  iff every flag set in \<open>b\<close> is also set in \<open>a\<close>", "a bitwise subset check".\<close>

definition Contains :: "Safety \<Rightarrow> Safety \<Rightarrow> bool" where
  "Contains a b \<longleftrightarrow> a AND b = b"

text \<open>The union of two safety sets is Go's \<open>a | b\<close>.\<close>

definition unionSafety :: "Safety \<Rightarrow> Safety \<Rightarrow> Safety" where
  "unionSafety a b = a OR b"

text \<open>From \<open>export_test.go\<close>: \<open>const Safe = safetyFlagsLimit - 1\<close>.\<close>

definition Safe :: Safety where
  "Safe = safetyFlagsLimit - 1"

text \<open>From \<open>startest.go\<close>:
  \<open>const stSafe = starlark.CPUSafe | starlark.MemSafe | starlark.TimeSafe | starlark.IOSafe\<close>.\<close>

definition stSafe :: Safety where
  "stSafe = CPUSafe OR MemSafe OR TimeSafe OR IOSafe"

section \<open>Allocation-accounting wrapper\<close>

text \<open>
  Modelled from the spec: the types of a \<open>Sizer\<close> and of an accounted operation,
  which the test uses and no source file declares.
  A \<open>Sizer\<close> maps a result to its size in memory units. An operation is a Go closure
  \<open>func() (interface{}, error)\<close>: it takes no argument, it reads and writes the state
  it captured (\<open>'env\<close>, the \<open>opDone\<close> of the test) and it can read the counters of the
  thread. It returns a result and an error, each of which may be \<open>nil\<close> (\<open>None\<close>);
  it has failed when its error is not \<open>nil\<close>.
\<close>

type_synonym ('r, 'w) Sizer = "'r option \<Rightarrow> 'w word"

type_synonym ('r, 'env, 'w) operation =
  "'w word Monitor \<Rightarrow> 'env \<Rightarrow> ('r option \<times> 'w word error option) \<times> 'env"

text \<open>
  Modelled from the spec: what the wrapper does with an operation that has failed. Rule 5
  of section 4.4 says that the error of the operation is propagated and that "any
  post-measurement accounting that is knowable" is still performed; it names neither the
  result that the wrapper returns then nor that accounting. A value of this type stands
  for both: from the monitor after the estimate was declared, the result that the failed
  operation returned, the estimate and the sizer, it gives the result that the wrapper
  returns and the monitor that it leaves.
\<close>

type_synonym ('r, 'w) failureAccounting =
  "'w word Monitor \<Rightarrow> 'r option \<Rightarrow> 'w word \<Rightarrow> ('r, 'w) Sizer option
     \<Rightarrow> 'r option \<times> 'w word Monitor"

text \<open>
  Modelled from the spec: the function \<open>AccountAllocsForOperation\<close>, which is declared
  in a file of package \<open>starlark\<close> that is not among the sources, as are \<open>Sizer\<close> and
  \<open>Thread\<close>; only the test of the wrapper is there. The model follows section 4.4 of
  the spec step by step. The thread is represented by the \<open>Monitor\<close> it owns: the
  thread's \<open>declareSizeIncrease\<close> and its decrease delegate to the monitor. The
  argument \<open>resultSizeOf\<close> is \<open>None\<close> when no sizer is supplied, and the first
  argument \<open>afterFailure\<close> is the part of rule 5 that the spec leaves open. The steps:
  \<^enum> a non-zero estimate is declared as a size increase before the operation runs; if
    that fails the wrapper returns no result and the error, and the operation is not run;
  \<^enum> otherwise the operation is run;
  \<^enum> if a sizer was supplied and the operation succeeded, the difference between the
    measured size and the estimate is declared, as an increase when the measured size is
    not below the estimate and as a decrease otherwise;
  \<^enum> if that declaration fails the wrapper returns no result and the latched error;
  \<^enum> if the operation fails its error is returned, with the result and the monitor
    that \<open>afterFailure\<close> gives.
  The wrapper returns the pair of result and error, the monitor and the captured state.
\<close>

definition AccountAllocsForOperation ::
  "('r, 'w) failureAccounting \<Rightarrow> ('w::len) word Monitor \<Rightarrow> string
     \<Rightarrow> ('r, 'env, 'w) operation \<Rightarrow> 'w word \<Rightarrow> ('r, 'w) Sizer option \<Rightarrow> 'env
     \<Rightarrow> ('r option \<times> 'w word error option) \<times> 'w word Monitor \<times> 'env" where
  "AccountAllocsForOperation afterFailure thread opName operation prealloc resultSizeOf env =
     (case (if prealloc \<noteq> 0 then DeclareSizeIncrease prealloc thread else (None, thread)) of
        (Some e, thread1) \<Rightarrow> ((None, Some e), thread1, env)
      | (None, thread1) \<Rightarrow>
          (case operation thread1 env of
             ((result, Some e), env1) \<Rightarrow>
               (case afterFailure thread1 result prealloc resultSizeOf of
                  (result1, thread2) \<Rightarrow> ((result1, Some e), thread2, env1))
           | ((result, None), env1) \<Rightarrow>
               (case resultSizeOf of
                  None \<Rightarrow> ((result, None), thread1, env1)
                | Some sizeOf \<Rightarrow>
                    (let measured = sizeOf result
                     in if measured \<ge> prealloc
                        then (case DeclareSizeIncrease (measured - prealloc) thread1 of
                                (Some e, thread2) \<Rightarrow> ((None, Some e), thread2, env1)
                              | (None, thread2) \<Rightarrow> ((result, None), thread2, env1))
                        else ((result, None),
                              DeclareSizeDecrease (prealloc - measured) thread1, env1)))))"

section \<open>Step estimator\<close>

text \<open>
  The compiler is an external collaborator: \<open>toplevelCode code\<close> stands for the call of
  \<open>SourceProgram\<close> followed by \<open>mod.compiled.Toplevel.Code\<close> and is \<open>None\<close> when
  \<open>SourceProgram\<close> returns an error; \<open>OpcodeArgMin\<close> is the constant
  \<open>compile.OpcodeArgMin\<close>. The \<open>fmt.Printf\<close> of the loop only writes to the standard
  output and is left out.
\<close>

type_synonym byte = "8 word"

definition CallSteps :: uint64 where
  "CallSteps = 1"

definition IgnoreResultSteps :: uint64 where
  "IgnoreResultSteps = 1"

definition LoopIterStepOverhead :: uint64 where
  "LoopIterStepOverhead = 6"

definition snippetOverhead :: uint64 where
  "snippetOverhead = 3"

definition iterOverhead :: uint64 where
  "iterOverhead = 6"

text \<open>
  The inner loop \<open>arg:\<close> reads operand bytes from \<open>pc\<close> on, up to and including the
  first one below \<open>0x80\<close>, and gives the \<open>pc\<close> after it. Reading \<open>byteCode[pc]\<close>
  beyond the end is a run-time panic: \<open>None\<close>.
\<close>

function skipArg :: "byte list \<Rightarrow> nat \<Rightarrow> nat option" where
  "skipArg byteCode pc =
     (if pc < length byteCode
      then (if byteCode ! pc < 0x80 then Some (pc + 1) else skipArg byteCode (pc + 1))
      else None)"
  by pat_completeness auto
termination
  by (relation "measure (\<lambda>(byteCode, pc). length byteCode - pc)") auto

declare skipArg.simps [simp del]

lemma skipArg_advances:
  "skipArg byteCode pc = Some pc1 \<Longrightarrow> pc < pc1 \<and> pc1 \<le> length byteCode"
proof (induction byteCode pc rule: skipArg.induct)
  case (1 byteCode pc)
  show ?case
  proof (cases "pc < length byteCode")
    case True
    note inside = this
    show ?thesis
    proof (cases "byteCode ! pc < 0x80")
      case True
      with inside "1.prems" show ?thesis
        by (simp add: skipArg.simps [of byteCode pc])
    next
      case False
      with inside "1.prems" have "skipArg byteCode (pc + 1) = Some pc1"
        by (simp add: skipArg.simps [of byteCode pc])
      from "1.IH" [OF inside False this] show ?thesis by simp
    qed
  next
    case False
    with "1.prems" show ?thesis
      by (simp add: skipArg.simps [of byteCode pc])
  qed
qed

text \<open>The outer loop \<open>for pc < len(byteCode)\<close>: one step for each opcode.\<close>

function (sequential) countSteps :: "byte \<Rightarrow> byte list \<Rightarrow> nat \<Rightarrow> uint64 \<Rightarrow> uint64 option" where
  "countSteps OpcodeArgMin byteCode pc stepCount =
     (if pc < length byteCode
      then (if byteCode ! pc \<ge> OpcodeArgMin
            then (case skipArg byteCode (pc + 1) of
                    None \<Rightarrow> None
                  | Some pc1 \<Rightarrow> countSteps OpcodeArgMin byteCode pc1 (stepCount + 1))
            else countSteps OpcodeArgMin byteCode (pc + 1) (stepCount + 1))
      else Some stepCount)"
  by pat_completeness auto
termination
  by (relation "measure (\<lambda>(OpcodeArgMin, byteCode, pc, stepCount). length byteCode - pc)")
    (auto dest: skipArg_advances)

declare countSteps.simps [simp del]

datatype estimate_error =
    FailedToParse string
  | IndexOutOfRange

definition EstimateSteps ::
  "(string \<Rightarrow> byte list option) \<Rightarrow> byte \<Rightarrow> string \<Rightarrow> estimate_error + uint64" where
  "EstimateSteps toplevelCode OpcodeArgMin code =
     (case toplevelCode code of
        None \<Rightarrow> Inl (FailedToParse code)
      | Some byteCode \<Rightarrow>
          (case countSteps OpcodeArgMin byteCode 0 0 of
             None \<Rightarrow> Inl IndexOutOfRange
           | Some stepCount \<Rightarrow> Inr (stepCount - snippetOverhead)))"

text \<open>
  The repeat count \<open>n\<close> is a Go \<open>int\<close>, given here by its value; \<open>uint64(n)\<close> is
  that value modulo \<open>2 ^ 64\<close>, and the product wraps around.
\<close>

definition EstimateIterSteps ::
  "(string \<Rightarrow> byte list option) \<Rightarrow> byte \<Rightarrow> string \<Rightarrow> int \<Rightarrow> estimate_error + uint64" where
  "EstimateIterSteps toplevelCode OpcodeArgMin code n =
     (case EstimateSteps toplevelCode OpcodeArgMin code of
        Inl e \<Rightarrow> Inl e
      | Inr stepsPerIter \<Rightarrow> Inr (word_of_int n * (stepsPerIter + iterOverhead)))"

section \<open>Measurement harness\<close>

record ST =
  maxAllocs :: uint64
  maxExecutionSteps :: uint64
  requiredSafety :: Safety
  safetyGiven :: bool

record resources =
  memorySum :: uint64
  modelStepSum :: uint64
  nSum :: uint64

text \<open>The calls of \<open>st.Errorf\<close> in \<open>RunThread\<close>, each with its two numbers.\<close>

datatype failure =
    MeasuredMemoryAboveMaximum uint64 uint64
  | DeclaredAllocationsAboveMaximum uint64 uint64
  | MeasuredMemoryAboveDeclaredAllocations uint64 uint64
  | DeclaredExecutionStepsAboveMaximum uint64 uint64
  | ModelExecutionStepsAboveMaximum uint64 uint64
  | ModelExecutionStepsAboveDeclared uint64 uint64

definition MaxUint64 :: uint64 where
  "MaxUint64 = - 1"

text \<open>
  \<open>RunThread\<close> after the measurement loop. What the loop and the thread produced is
  given: \<open>failed\<close> is \<open>st.Failed()\<close> after \<open>measureResources\<close>, \<open>res\<close> is what
  \<open>measureResources\<close> returned, \<open>allocs\<close> is \<open>thread.Allocs()\<close> and \<open>execSteps\<close>
  is \<open>thread.ExecutionSteps()\<close>. The result is the list of failures reported, in
  order; an integer division by zero is a run-time panic: \<open>None\<close>.
\<close>

definition RunThread ::
  "ST \<Rightarrow> bool \<Rightarrow> resources \<Rightarrow> uint64 \<Rightarrow> uint64 \<Rightarrow> failure list option" where
  "RunThread st0 failed res allocs execSteps =
     (let st = (if \<not> safetyGiven st0 then st0\<lparr>requiredSafety := stSafe\<rparr> else st0)
      in if failed then Some []
         else if nSum res = 0 then None
         else
           (let meanMeasuredAllocs = memorySum res div nSum res;
                r1 = (if maxAllocs st \<noteq> MaxUint64 \<and> meanMeasuredAllocs > maxAllocs st
                      then [MeasuredMemoryAboveMaximum meanMeasuredAllocs (maxAllocs st)]
                      else []);
                r2 = (if Contains (requiredSafety st) MemSafe
                      then (let meanDeclaredAllocs = allocs div nSum res
                            in (if meanDeclaredAllocs > maxAllocs st
                                then [DeclaredAllocationsAboveMaximum meanDeclaredAllocs
                                        (maxAllocs st)]
                                else []) @
                               (if meanMeasuredAllocs > meanDeclaredAllocs
                                then [MeasuredMemoryAboveDeclaredAllocations meanMeasuredAllocs
                                        meanDeclaredAllocs]
                                else []))
                      else []);
                meanExecutionSteps = execSteps div nSum res;
                r3 = (if maxExecutionSteps st \<noteq> MaxUint64
                           \<and> meanExecutionSteps > maxExecutionSteps st
                      then [DeclaredExecutionStepsAboveMaximum meanExecutionSteps
                              (maxExecutionSteps st)]
                      else []);
                r4 = (if Contains (requiredSafety st) CPUSafe
                      then (let meanModelExecutionSteps = modelStepSum res div nSum res
                            in (if meanModelExecutionSteps > maxExecutionSteps st
                                then [ModelExecutionStepsAboveMaximum meanModelExecutionSteps
                                        (maxExecutionSteps st)]
                                else []) @
                               (if meanModelExecutionSteps > meanExecutionSteps
                                then [ModelExecutionStepsAboveDeclared meanModelExecutionSteps
                                        meanExecutionSteps]
                                else []))
                      else [])
            in Some (r1 @ r2 @ r3 @ r4)))"

section \<open>Properties of the monitor\<close>

lemma CheckUsage_latches:
  "CheckUsage mon = (Some e, mon1) \<Longrightarrow> err mon1 = Some e"
  by (auto simp: CheckUsage_def split: option.splits if_splits)

lemma DeclareSizeIncrease_latches:
  "DeclareSizeIncrease delta mon = (Some e, mon1) \<Longrightarrow> err mon1 = Some e"
  by (auto simp: DeclareSizeIncrease_def Let_def split: option.splits if_splits)

lemma applyCall_latched:
  assumes "err mon = Some e"
  shows "err (snd (applyCall c mon)) = Some e"
    and "locationsUsed (snd (applyCall c mon)) = locationsUsed mon"
    and "returnsLatch c \<Longrightarrow> fst (applyCall c mon) = Some e"
  using assms
  by (cases c; simp add: CheckUsage_def DeclareSizeIncrease_def DeclareSizeDecrease_def
        countStep_def SetMaxExecutionSteps_def SetLocationsCap_def)+

lemma applyCalls_latched:
  assumes "err mon = Some e"
  shows "err (snd (applyCalls cs mon)) = Some e
    \<and> locationsUsed (snd (applyCalls cs mon)) = locationsUsed mon
    \<and> (\<forall>(c, r) \<in> set (zip cs (fst (applyCalls cs mon))). returnsLatch c \<longrightarrow> r = Some e)"
  using assms
proof (induction cs arbitrary: mon)
  case Nil
  then show ?case by simp
next
  case (Cons c cs)
  obtain r mon1 where c: "applyCall c mon = (r, mon1)"
    by (cases "applyCall c mon")
  from applyCall_latched [OF Cons.prems, of c] c
  have l: "err mon1 = Some e" and u: "locationsUsed mon1 = locationsUsed mon"
    and r: "returnsLatch c \<Longrightarrow> r = Some e"
    by simp_all
  obtain rs mon2 where cs: "applyCalls cs mon1 = (rs, mon2)"
    by (cases "applyCalls cs mon1")
  from Cons.IH [OF l] cs
  have "err mon2 = Some e" and "locationsUsed mon2 = locationsUsed mon1"
    and "\<forall>(c, r) \<in> set (zip cs rs). returnsLatch c \<longrightarrow> r = Some e"
    by simp_all
  with c cs u r show ?case
    by auto
qed

text \<open>
  C1. Once an error \<open>e\<close> is latched in a monitor (a failing \<open>CheckUsage\<close> or
  \<open>DeclareSizeIncrease\<close> leaves it so, see \<open>CheckUsage_latches\<close> and
  \<open>DeclareSizeIncrease_latches\<close>), \<open>CheckUsage\<close> and \<open>DeclareSizeIncrease\<close> return
  that same \<open>e\<close> and leave the monitor as it is, \<open>DeclareSizeDecrease\<close> leaves the monitor
  as it is, and this stays so after any sequence of further calls: the latch is still
  \<open>e\<close>, \<open>locationsUsed\<close> has not moved, and every \<open>CheckUsage\<close> and
  \<open>DeclareSizeIncrease\<close> of the sequence returned \<open>e\<close>.
\<close>

theorem Monitor_latch_sticky:
  assumes "err mon = Some e"
  shows "CheckUsage mon = (Some e, mon)
    \<and> DeclareSizeIncrease delta mon = (Some e, mon)
    \<and> DeclareSizeDecrease delta mon = mon
    \<and> err (snd (applyCalls cs mon)) = Some e
    \<and> locationsUsed (snd (applyCalls cs mon)) = locationsUsed mon
    \<and> (\<forall>(c, r) \<in> set (zip cs (fst (applyCalls cs mon))). returnsLatch c \<longrightarrow> r = Some e)"
  using assms applyCalls_latched [OF assms, of cs]
  by (simp add: CheckUsage_def DeclareSizeIncrease_def DeclareSizeDecrease_def)

theorem Monitor_latch_sticky_witness:
  "err \<lparr>steps = 7, maxSteps = 5, locationsUsed = 3 :: 64 word, locationsCap = 10,
         err = Some TooManySteps\<rparr> = Some TooManySteps
   \<and> CheckUsage \<lparr>steps = 7, maxSteps = 5, locationsUsed = 3 :: 64 word, locationsCap = 10,
         err = Some TooManySteps\<rparr>
       = (Some TooManySteps, \<lparr>steps = 7, maxSteps = 5, locationsUsed = 3, locationsCap = 10,
         err = Some TooManySteps\<rparr>)
   \<and> DeclareSizeIncrease 4 \<lparr>steps = 7, maxSteps = 5, locationsUsed = 3 :: 64 word,
         locationsCap = 10, err = Some TooManySteps\<rparr>
       = (Some TooManySteps, \<lparr>steps = 7, maxSteps = 5, locationsUsed = 3, locationsCap = 10,
         err = Some TooManySteps\<rparr>)
   \<and> DeclareSizeDecrease 4 \<lparr>steps = 7, maxSteps = 5, locationsUsed = 3 :: 64 word,
         locationsCap = 10, err = Some TooManySteps\<rparr>
       = \<lparr>steps = 7, maxSteps = 5, locationsUsed = 3, locationsCap = 10,
         err = Some TooManySteps\<rparr>
   \<and> locationsUsed (snd (applyCalls
         [CallDeclareSizeDecrease 2, CallCheckUsage, CallCountStep, CallDeclareSizeIncrease 9]
         \<lparr>steps = 7, maxSteps = 5, locationsUsed = 3 :: 64 word, locationsCap = 10,
          err = Some TooManySteps\<rparr>)) = 3"
  using Monitor_latch_sticky [of "\<lparr>steps = 7, maxSteps = 5, locationsUsed = 3 :: 64 word,
    locationsCap = 10, err = Some TooManySteps\<rparr>" TooManySteps 4
    "[CallDeclareSizeDecrease 2, CallCheckUsage, CallCountStep, CallDeclareSizeIncrease 9]"]
  by simp

text \<open>
  C2, as stated, fails: \<open>InUse\<close> looks at the step counter only, and
  \<open>DeclareSizeIncrease\<close> does not count a step. On a monitor that has declared one
  unit and taken no step, both setters return \<open>nil\<close> and store the new cap.
\<close>

theorem SetLocationsCap_after_DeclareSizeIncrease:
  "DeclareSizeIncrease 1 \<lparr>steps = 0, maxSteps = 100, locationsUsed = 0 :: 64 word,
       locationsCap = 10, err = None\<rparr>
     = (None, \<lparr>steps = 0, maxSteps = 100, locationsUsed = 1, locationsCap = 10, err = None\<rparr>)
   \<and> SetLocationsCap 5 \<lparr>steps = 0, maxSteps = 100, locationsUsed = 1 :: 64 word,
       locationsCap = 10, err = None\<rparr>
     = (None, \<lparr>steps = 0, maxSteps = 100, locationsUsed = 1, locationsCap = 5, err = None\<rparr>)
   \<and> SetMaxExecutionSteps 7 \<lparr>steps = 0, maxSteps = 100, locationsUsed = 1 :: 64 word,
       locationsCap = 10, err = None\<rparr>
     = (None, \<lparr>steps = 0, maxSteps = 7, locationsUsed = 1, locationsCap = 10, err = None\<rparr>)"
  by (simp add: DeclareSizeIncrease_def SetLocationsCap_def SetMaxExecutionSteps_def InUse_def Let_def
      word_le_nat_alt)

lemma word_succ_nonzero: "x \<noteq> - 1 \<Longrightarrow> x + 1 \<noteq> (0 :: 'a::len word)"
  by (metis add.commute add.right_neutral add_left_cancel ab_left_minus add.left_neutral minus_add_cancel)

text \<open>
  C2, amended. The setters fail with their configuration error, and leave the monitor as
  it is, exactly when the step counter is not zero; otherwise they return \<open>nil\<close> and
  store the cap. \<open>countStep\<close> makes the counter non-zero unless it wraps around from the
  largest \<open>uint64\<close>, and \<open>DeclareSizeIncrease\<close> never changes the counter.
\<close>

theorem cap_setters_guard:
  "SetMaxExecutionSteps mx mon
     = (if steps mon \<noteq> 0 then (Some StepsInUse, mon) else (None, mon\<lparr>maxSteps := mx\<rparr>))
   \<and> SetLocationsCap cap mon
     = (if steps mon \<noteq> 0 then (Some MemCapInUse, mon) else (None, mon\<lparr>locationsCap := cap\<rparr>))
   \<and> (steps (countStep mon) \<noteq> 0) = (steps mon \<noteq> - 1)
   \<and> steps (snd (DeclareSizeIncrease delta mon)) = steps mon"
proof -
  have "(steps mon + 1 \<noteq> 0) = (steps mon \<noteq> - 1)"
    using word_succ_nonzero [of "steps mon"] by auto
  then show ?thesis
    by (auto simp: SetMaxExecutionSteps_def SetLocationsCap_def InUse_def countStep_def
        DeclareSizeIncrease_def Let_def word_greater_zero_iff split: option.splits)
qed

theorem cap_setters_guard_witness:
  "SetMaxExecutionSteps 7 (countStep \<lparr>steps = 0, maxSteps = 100, locationsUsed = 0 :: 64 word,
       locationsCap = 10, err = None\<rparr>)
     = (Some StepsInUse, \<lparr>steps = 1, maxSteps = 100, locationsUsed = 0, locationsCap = 10,
       err = None\<rparr>)
   \<and> SetLocationsCap 5 (countStep \<lparr>steps = 0, maxSteps = 100, locationsUsed = 0 :: 64 word,
       locationsCap = 10, err = None\<rparr>)
     = (Some MemCapInUse, \<lparr>steps = 1, maxSteps = 100, locationsUsed = 0, locationsCap = 10,
       err = None\<rparr>)"
  using cap_setters_guard [of 7 "countStep \<lparr>steps = 0, maxSteps = 100,
    locationsUsed = 0 :: 64 word, locationsCap = 10, err = None\<rparr>" 5 0]
  by (simp add: countStep_def)

text \<open>
  C5. \<open>CheckUsage\<close> compares with \<open>>=\<close>: a monitor with no latched error whose
  \<open>steps\<close> equal \<open>maxSteps\<close>, and so have not exceeded it, gets the error
  \<open>too many steps\<close> latched and returned.
\<close>

theorem CheckUsage_at_limit:
  "CheckUsage \<lparr>steps = 5, maxSteps = 5, locationsUsed = 0 :: 64 word, locationsCap = 10,
      err = None\<rparr>
   = (Some TooManySteps, \<lparr>steps = 5, maxSteps = 5, locationsUsed = 0, locationsCap = 10,
      err = Some TooManySteps\<rparr>)"
  by (simp add: CheckUsage_def)

text \<open>
  C10. On a monitor with no latched error \<open>DeclareSizeDecrease delta\<close> subtracts without
  a check: \<open>locationsUsed\<close> becomes \<open>locationsUsed - delta\<close> modulo \<open>2 ^ w\<close>, where
  \<open>w\<close> is the width of \<open>uintptr\<close>. When \<open>delta\<close> is above the counter, the counter
  wraps around to \<open>locationsUsed + 2 ^ w - delta\<close>, above what it was. Nothing is
  returned and no error is latched.
\<close>

theorem DeclareSizeDecrease_wraps:
  fixes mon :: "('w::len) word Monitor"
  assumes "err mon = None"
  shows "DeclareSizeDecrease delta mon = mon\<lparr>locationsUsed := locationsUsed mon - delta\<rparr>
    \<and> err (DeclareSizeDecrease delta mon) = None
    \<and> unat (locationsUsed (DeclareSizeDecrease delta mon))
       = (unat (locationsUsed mon) + 2 ^ LENGTH('w) - unat delta) mod 2 ^ LENGTH('w)
    \<and> (locationsUsed mon < delta \<longrightarrow>
         unat (locationsUsed (DeclareSizeDecrease delta mon))
         = unat (locationsUsed mon) + 2 ^ LENGTH('w) - unat delta
         \<and> locationsUsed (DeclareSizeDecrease delta mon) > locationsUsed mon)"
proof -
  have eq: "DeclareSizeDecrease delta mon = mon\<lparr>locationsUsed := locationsUsed mon - delta\<rparr>"
    using assms by (simp add: DeclareSizeDecrease_def)
  have bound: "unat delta < 2 ^ LENGTH('w)" "unat (locationsUsed mon) < 2 ^ LENGTH('w)"
    by simp_all
  have modular: "unat (locationsUsed mon - delta)
      = (unat (locationsUsed mon) + 2 ^ LENGTH('w) - unat delta) mod 2 ^ LENGTH('w)"
  proof (cases "unat delta \<le> unat (locationsUsed mon)")
    case True
    then have "unat (locationsUsed mon) + 2 ^ LENGTH('w) - unat delta
        = (unat (locationsUsed mon) - unat delta) + 2 ^ LENGTH('w)"
      by simp
    then have "(unat (locationsUsed mon) + 2 ^ LENGTH('w) - unat delta) mod 2 ^ LENGTH('w)
        = (unat (locationsUsed mon) - unat delta) mod 2 ^ LENGTH('w)"
      by (simp only: mod_add_self2)
    moreover have "unat (locationsUsed mon) - unat delta < 2 ^ LENGTH('w)"
      using bound by arith
    ultimately show ?thesis
      using True by (simp add: unat_sub_if')
  next
    case False
    then have "unat (locationsUsed mon) + 2 ^ LENGTH('w) - unat delta < 2 ^ LENGTH('w)"
      using bound by arith
    then show ?thesis
      using False by (simp add: unat_sub_if')
  qed
  have wrapped: "unat (locationsUsed mon - delta)
        = unat (locationsUsed mon) + 2 ^ LENGTH('w) - unat delta
      \<and> locationsUsed mon - delta > locationsUsed mon"
    if less: "locationsUsed mon < delta"
  proof -
    from less have lt: "unat (locationsUsed mon) < unat delta"
      by (simp add: word_less_nat_alt)
    then have u: "unat (locationsUsed mon - delta)
        = unat (locationsUsed mon) + 2 ^ LENGTH('w) - unat delta"
      by (simp add: unat_sub_if')
    with lt bound have "unat (locationsUsed mon) < unat (locationsUsed mon - delta)"
      by arith
    with u show ?thesis
      by (simp add: word_less_nat_alt)
  qed
  from eq assms modular wrapped show ?thesis
    by simp
qed

theorem DeclareSizeDecrease_wraps_witness:
  "err \<lparr>steps = 0, maxSteps = 100, locationsUsed = 3 :: 64 word, locationsCap = 10,
        err = None\<rparr> = None
   \<and> (3 :: 64 word) < 5
   \<and> DeclareSizeDecrease 5 \<lparr>steps = 0, maxSteps = 100, locationsUsed = 3 :: 64 word,
        locationsCap = 10, err = None\<rparr>
      = \<lparr>steps = 0, maxSteps = 100, locationsUsed = 18446744073709551614, locationsCap = 10,
        err = None\<rparr>"
  using DeclareSizeDecrease_wraps [of "\<lparr>steps = 0, maxSteps = 100,
    locationsUsed = 3 :: 64 word, locationsCap = 10, err = None\<rparr>" 5]
  by simp

section \<open>Properties of the safety flags\<close>

text \<open>
  C8. A union of two safety sets contains each of them, and the all-flags constant
  \<open>Safe\<close>, declared as \<open>safetyFlagsLimit - 1\<close>, is the union of the four named flags,
  which is also the harness's \<open>stSafe\<close>.
\<close>

theorem Safety_union_contains:
  "Contains (unionSafety a b) a \<and> Contains (unionSafety a b) b
   \<and> Safe = unionSafety (unionSafety (unionSafety CPUSafe MemSafe) TimeSafe) IOSafe
   \<and> Safe = stSafe"
proof -
  have "(a OR b) AND a = a" and "(a OR b) AND b = b"
    by (simp_all add: bit_eq_iff bit_and_iff bit_or_iff)
  then show ?thesis
    by (simp add: Contains_def unionSafety_def Safe_def stSafe_def safetyFlagsLimit_def
        CPUSafe_def MemSafe_def TimeSafe_def IOSafe_def)
qed

section \<open>Properties of the allocation-accounting wrapper\<close>

text \<open>
  C3. With a non-zero estimate the wrapper first declares the estimate. If the
  declaration fails, the wrapper returns no result and the latched error, with the
  monitor as the declaration left it and the captured state untouched, whatever the
  operation is: the operation is not run. If the declaration succeeds, the operation is
  run on the monitor that already counts the estimate.
\<close>

theorem AccountAllocs_declares_prealloc_first:
  assumes "prealloc \<noteq> 0"
  shows "case DeclareSizeIncrease prealloc thread of
           (Some e, thread1) \<Rightarrow>
             AccountAllocsForOperation afterFailure thread opName operation prealloc
                 resultSizeOf env
               = ((None, Some e), thread1, env)
         | (None, thread1) \<Rightarrow>
             locationsUsed thread1 = locationsUsed thread + prealloc
             \<and> snd (snd (AccountAllocsForOperation afterFailure thread opName operation
                   prealloc resultSizeOf env))
               = snd (operation thread1 env)"
  using assms
  by (auto simp: AccountAllocsForOperation_def DeclareSizeIncrease_def Let_def
      split: prod.splits option.splits if_splits)

theorem AccountAllocs_declares_prealloc_first_witness:
  "(101 :: 64 word) \<noteq> 0
   \<and> AccountAllocsForOperation (\<lambda>thread result prealloc resultSizeOf. (result, thread))
        \<lparr>steps = 0, maxSteps = - 1, locationsUsed = 0 :: 64 word, locationsCap = 1, err = None\<rparr>
        ''pre-fail'' (\<lambda>thread opDone. ((Some ''dummy'', None), Suc opDone)) 101 None (0 :: nat)
      = ((None, Some (TooMuchMemory 101)),
         \<lparr>steps = 0, maxSteps = - 1, locationsUsed = 101, locationsCap = 1,
          err = Some (TooMuchMemory 101)\<rparr>, 0)
   \<and> snd (snd (AccountAllocsForOperation (\<lambda>thread result prealloc resultSizeOf. (result, thread))
        \<lparr>steps = 0, maxSteps = - 1, locationsUsed = 0 :: 64 word, locationsCap = 200, err = None\<rparr>
        ''ok-preallocs'' (\<lambda>thread seen. ((Some ''dummy'', None), locationsUsed thread))
        101 None 0))
      = 101"
  using AccountAllocs_declares_prealloc_first [of 101
      "\<lparr>steps = 0, maxSteps = - 1, locationsUsed = 0 :: 64 word, locationsCap = 1, err = None\<rparr>"
      "\<lambda>thread result prealloc resultSizeOf. (result, thread)"
      "''pre-fail''" "\<lambda>thread opDone. ((Some ''dummy'', None), Suc opDone)" None "0 :: nat"]
    AccountAllocs_declares_prealloc_first [of 101
      "\<lparr>steps = 0, maxSteps = - 1, locationsUsed = 0 :: 64 word, locationsCap = 200, err = None\<rparr>"
      "\<lambda>thread result prealloc resultSizeOf. (result, thread)"
      "''ok-preallocs''" "\<lambda>thread seen. ((Some ''dummy'', None), locationsUsed thread)"
      None 0]
  by (simp add: DeclareSizeIncrease_def Let_def word_le_nat_alt)

lemma DeclareSizeIncrease_ok:
  "DeclareSizeIncrease delta mon = (None, mon1) \<Longrightarrow>
     err mon = None \<and> err mon1 = None \<and> mon1 = mon\<lparr>locationsUsed := locationsUsed mon + delta\<rparr>"
  by (auto simp: DeclareSizeIncrease_def Let_def split: option.splits if_splits)

text \<open>
  C4. When a call with a non-zero estimate and a sizer succeeds, \<open>locationsUsed\<close> has
  grown by the measured size of the result alone: the estimate and the measured size are
  reconciled by subtraction. The operation ran once, on the monitor that counted the
  estimate, and gave the result and the captured state that the wrapper returns. In the
  scenario of the spec (estimate 100, cap 200, measured size 60) the call succeeds with
  \<open>locationsUsed = 60\<close>, and the operation has run once.
\<close>

theorem AccountAllocs_reconciles_by_subtraction:
  assumes "prealloc \<noteq> 0"
    and "AccountAllocsForOperation afterFailure thread opName operation prealloc
           (Some sizeOf) env
           = ((result, None), thread', env')"
  shows "locationsUsed thread' = locationsUsed thread + sizeOf result
    \<and> operation (thread\<lparr>locationsUsed := locationsUsed thread + prealloc\<rparr>) env
        = ((result, None), env')"
proof -
  obtain thread1 where pre: "DeclareSizeIncrease prealloc thread = (None, thread1)"
    using assms
    by (auto simp: AccountAllocsForOperation_def split: prod.splits option.splits)
  from DeclareSizeIncrease_ok [OF pre]
  have t1: "thread1 = thread\<lparr>locationsUsed := locationsUsed thread + prealloc\<rparr>"
    and e1: "err thread1 = None"
    by simp_all
  obtain result0 error0 env1 where run: "operation thread1 env = ((result0, error0), env1)"
    by (cases "operation thread1 env") auto
  from assms pre run have out: "error0 = None" "result0 = result" and env: "env1 = env'"
    by (auto simp: AccountAllocsForOperation_def Let_def
        split: prod.splits option.splits if_splits)
  have used: "locationsUsed thread' = locationsUsed thread + sizeOf result"
  proof (cases "sizeOf result \<ge> prealloc")
    case True
    with assms pre run out obtain thread2
      where post: "DeclareSizeIncrease (sizeOf result - prealloc) thread1 = (None, thread2)"
        and "thread' = thread2"
      by (auto simp: AccountAllocsForOperation_def Let_def
          split: prod.splits option.splits if_splits)
    with DeclareSizeIncrease_ok [OF post] t1 show ?thesis
      by simp
  next
    case False
    with assms pre run out
    have "thread' = DeclareSizeDecrease (prealloc - sizeOf result) thread1"
      by (auto simp: AccountAllocsForOperation_def Let_def
          split: prod.splits option.splits if_splits)
    with e1 t1 show ?thesis
      by (simp add: DeclareSizeDecrease_def)
  qed
  from used run out env t1 show ?thesis
    by simp
qed

theorem AccountAllocs_reconciles_by_subtraction_witness:
  "(100 :: 64 word) \<noteq> 0
   \<and> AccountAllocsForOperation (\<lambda>thread result prealloc resultSizeOf. (result, thread))
        \<lparr>steps = 0, maxSteps = - 1, locationsUsed = 0 :: 64 word, locationsCap = 200, err = None\<rparr>
        ''scenario'' (\<lambda>thread opDone. ((Some ''value'', None), Suc opDone)) 100
        (Some (\<lambda>result. 60)) (0 :: nat)
      = ((Some ''value'', None),
         \<lparr>steps = 0, maxSteps = - 1, locationsUsed = 60, locationsCap = 200, err = None\<rparr>, 1)
   \<and> (60 :: 64 word) \<noteq> 160"
proof -
  have run: "AccountAllocsForOperation (\<lambda>thread result prealloc resultSizeOf. (result, thread))
        \<lparr>steps = 0, maxSteps = - 1, locationsUsed = 0 :: 64 word, locationsCap = 200, err = None\<rparr>
        ''scenario'' (\<lambda>thread opDone. ((Some ''value'', None), Suc opDone)) 100
        (Some (\<lambda>result. 60)) (0 :: nat)
      = ((Some ''value'', None),
         \<lparr>steps = 0, maxSteps = - 1, locationsUsed = 60, locationsCap = 200, err = None\<rparr>, 1)"
    by (simp add: AccountAllocsForOperation_def DeclareSizeIncrease_def DeclareSizeDecrease_def
        Let_def word_le_nat_alt)
  have pre: "(100 :: 64 word) \<noteq> 0"
    by simp
  from AccountAllocs_reconciles_by_subtraction [OF pre run] run pre show ?thesis
    by simp
qed

text \<open>
  Whether the wrapper can return a result together with an error rests on
  \<open>afterFailure\<close> alone, the part of rule 5 that the spec leaves open: it cannot when
  \<open>afterFailure\<close> never gives a result, and it does when \<open>afterFailure\<close> hands on
  the result of an operation that returned both.
\<close>

lemma AccountAllocs_both_only_afterFailure:
  assumes "\<And>thread1 result prealloc1 sizer. fst (afterFailure thread1 result prealloc1 sizer) = None"
  shows "fst (fst (AccountAllocsForOperation afterFailure thread opName operation prealloc
            resultSizeOf env)) = None
    \<or> snd (fst (AccountAllocsForOperation afterFailure thread opName operation prealloc
            resultSizeOf env)) = None"
proof (cases "if prealloc \<noteq> 0 then DeclareSizeIncrease prealloc thread else (None, thread)")
  case (Pair declared thread1)
  note pre = this
  show ?thesis
  proof (cases declared)
    case (Some e)
    with pre show ?thesis
      by (simp add: AccountAllocsForOperation_def)
  next
    case None
    note ok = this
    obtain result error env1 where run: "operation thread1 env = ((result, error), env1)"
      by (cases "operation thread1 env") auto
    show ?thesis
    proof (cases error)
      case (Some e)
      obtain result1 thread2
        where after: "afterFailure thread1 result prealloc resultSizeOf = (result1, thread2)"
        by (cases "afterFailure thread1 result prealloc resultSizeOf")
      with assms [of thread1 result prealloc resultSizeOf] have "result1 = None"
        by simp
      with pre ok run Some after show ?thesis
        by (simp add: AccountAllocsForOperation_def)
    next
      case None
      with pre ok run show ?thesis
        by (auto simp: AccountAllocsForOperation_def Let_def split: option.splits prod.splits)
    qed
  qed
qed

lemma AccountAllocs_both_when_handed_on:
  "fst (AccountAllocsForOperation (\<lambda>thread result prealloc resultSizeOf. (result, thread))
        \<lparr>steps = 0, maxSteps = - 1, locationsUsed = 0 :: 64 word, locationsCap = 200, err = None\<rparr>
        ''failing'' (\<lambda>thread opDone. ((Some ''partial'', Some (OpError ''boom'')), Suc opDone))
        0 None (0 :: nat))
     = (Some ''partial'', Some (OpError ''boom''))"
  by (simp add: AccountAllocsForOperation_def)

section \<open>Properties of the step estimator\<close>

text \<open>
  C7. When \<open>EstimateSteps\<close> gives \<open>single\<close> for a snippet, \<open>EstimateIterSteps\<close>
  gives \<open>n * single + n * 6\<close> for every repeat count \<open>n\<close>, in the arithmetic of
  \<open>uint64\<close>; for \<open>n = 10\<close> that is \<open>10 * single + 10 * iterOverhead\<close>. When
  \<open>n\<close> is not negative and the product does not overflow, the equation also holds for
  the unbounded values.
\<close>

theorem EstimateIterSteps_linear:
  assumes "EstimateSteps toplevelCode OpcodeArgMin code = Inr single"
  shows "EstimateIterSteps toplevelCode OpcodeArgMin code n
       = Inr (word_of_int n * single + word_of_int n * 6)
    \<and> EstimateIterSteps toplevelCode OpcodeArgMin code 10 = Inr (10 * single + 10 * iterOverhead)
    \<and> (0 \<le> n \<and> n * (uint single + 6) < 2 ^ 64 \<longrightarrow>
         (\<exists>loop. EstimateIterSteps toplevelCode OpcodeArgMin code n = Inr loop
            \<and> uint loop = n * uint single + n * 6))"
proof -
  have loop: "EstimateIterSteps toplevelCode OpcodeArgMin code k
      = Inr (word_of_int k * (single + iterOverhead))" for k
    using assms by (simp add: EstimateIterSteps_def)
  have general: "word_of_int n * (single + iterOverhead)
      = word_of_int n * single + word_of_int n * 6"
    by (simp add: iterOverhead_def distrib_left)
  have ten: "word_of_int 10 * (single + iterOverhead) = 10 * single + 10 * iterOverhead"
    by (simp add: distrib_left)
  have exact: "uint (word_of_int n * (single + iterOverhead)) = n * uint single + n * 6"
    if "0 \<le> n" and "n * (uint single + 6) < 2 ^ 64"
  proof -
    have "uint (word_of_int n * (single + 6) :: uint64)
        = (uint (word_of_int n :: uint64) * uint (single + 6)) mod 2 ^ 64"
      by (simp add: uint_word_ariths)
    also have "\<dots> = ((n mod 2 ^ 64) * ((uint single + 6) mod 2 ^ 64)) mod 2 ^ 64"
      by (simp add: uint_word_ariths uint_word_of_int take_bit_eq_mod)
    also have "\<dots> = (n * (uint single + 6)) mod 2 ^ 64"
      by (simp only: mod_mult_eq)
    also have "\<dots> = n * (uint single + 6)"
      using that by simp
    finally have "uint (word_of_int n * (single + iterOverhead)) = n * (uint single + 6)"
      by (simp add: iterOverhead_def)
    then show ?thesis
      by (simp add: distrib_left)
  qed
  from loop general ten exact show ?thesis
    by simp
qed

theorem EstimateIterSteps_linear_witness:
  "EstimateSteps (\<lambda>code. Some [0x10, 0x50, 0x81, 0x01, 0x20, 0x10, 0x51, 0x05, 0x30, 0x31]) 0x40
       ''x = 1\<newline>y = 2'' = Inr 4
   \<and> EstimateIterSteps (\<lambda>code. Some [0x10, 0x50, 0x81, 0x01, 0x20, 0x10, 0x51, 0x05, 0x30, 0x31])
       0x40 ''x = 1\<newline>y = 2'' 10 = Inr 100"
proof -
  have single: "EstimateSteps
      (\<lambda>code. Some [0x10, 0x50, 0x81, 0x01, 0x20, 0x10, 0x51, 0x05, 0x30, 0x31]) 0x40
      ''x = 1\<newline>y = 2'' = Inr 4"
    by (simp add: EstimateSteps_def countSteps.simps skipArg.simps snippetOverhead_def
        word_le_nat_alt word_less_nat_alt)
  from EstimateIterSteps_linear [OF single, of 10] single show ?thesis
    by (simp add: iterOverhead_def)
qed

section \<open>Properties of the measurement harness\<close>

lemma stSafe_Contains_MemSafe: "Contains stSafe MemSafe"
  by (simp add: Contains_def stSafe_def CPUSafe_def MemSafe_def TimeSafe_def IOSafe_def)

text \<open>
  C6. In a run that requires \<open>MemSafe\<close> and reaches the comparisons after the
  measurement loop, the harness reports that the declared allocations are above the
  maximum exactly when their mean exceeds \<open>maxAllocs\<close>, and it reports that the
  measured memory is above the declared allocations exactly when the mean measured
  memory exceeds the mean declared allocations, whatever \<open>maxAllocs\<close> is.
\<close>

theorem RunThread_memory_two_sided:
  assumes "\<not> failed" and "nSum res \<noteq> 0"
    and "Contains (if safetyGiven st then requiredSafety st else stSafe) MemSafe"
  shows "\<exists>fs. RunThread st failed res allocs execSteps = Some fs
    \<and> (DeclaredAllocationsAboveMaximum (allocs div nSum res) (maxAllocs st) \<in> set fs
         \<longleftrightarrow> allocs div nSum res > maxAllocs st)
    \<and> (MeasuredMemoryAboveDeclaredAllocations (memorySum res div nSum res)
           (allocs div nSum res) \<in> set fs
         \<longleftrightarrow> memorySum res div nSum res > allocs div nSum res)"
  using assms
  by (auto simp: RunThread_def Let_def split: if_splits)

theorem RunThread_memory_two_sided_witness:
  "RunThread \<lparr>maxAllocs = 100, maxExecutionSteps = MaxUint64, requiredSafety = 0,
        safetyGiven = False\<rparr> False
      \<lparr>memorySum = 1000, modelStepSum = 0, nSum = 10\<rparr> 500 0
    = Some [MeasuredMemoryAboveDeclaredAllocations 100 50]"
  using RunThread_memory_two_sided [of False "\<lparr>memorySum = 1000, modelStepSum = 0, nSum = 10\<rparr>"
      "\<lparr>maxAllocs = 100, maxExecutionSteps = MaxUint64, requiredSafety = 0,
        safetyGiven = False\<rparr>" 500 0]
  by (simp add: RunThread_def Let_def stSafe_Contains_MemSafe MaxUint64_def word_less_nat_alt
      Contains_def stSafe_def CPUSafe_def MemSafe_def TimeSafe_def IOSafe_def)

end
